theory Spec2Isabelle
  imports Main "HOL-Library.Word"
begin

unbundle bit_operations_syntax

section \<open>Granite render graph: the declarations of \<open>renderer/render_graph.hpp\<close>\<close>

text \<open>
  The header declares the descriptors of buffers and of resolved resource dimensions, the
  logical resource and logical pass classes with their inline accessors, and the graph
  class. Machine integers are words of the width the C++ type has: \<open>unsigned\<close>,
  \<open>VkFormat\<close>, \<open>VkBufferUsageFlags\<close> and \<open>VkPipelineStageFlags\<close> are 32 bits wide,
  \<open>VkDeviceSize\<close> is 64 bits wide.
\<close>

type_synonym unsigned = "32 word"
type_synonym VkFormat = "32 word"
type_synonym VkDeviceSize = "64 word"
type_synonym VkBufferUsageFlags = "32 word"
type_synonym VkPipelineStageFlags = "32 word"

text \<open>
  A raw pointer is \<open>None\<close> for \<open>nullptr\<close> and \<open>Some a\<close> for the object at address \<open>a\<close>.
\<close>

type_synonym addr = nat
type_synonym ptr = "addr option"

text \<open>
  Indexing a \<open>std::vector\<close> with \<open>operator[]\<close> past its end is undefined behaviour in
  C++; the model makes it the fault \<open>OutOfBounds\<close> instead of reading an unspecified value.
  A failed \<open>assert\<close> is the fault \<open>AssertionFailed\<close>.
\<close>

datatype fault = OutOfBounds | AssertionFailed

subsection \<open>BufferInfo (lines 36-53)\<close>

text \<open>The field \<open>size\<close> is written \<open>size'\<close>: \<open>size\<close> is a constant of HOL.\<close>

record BufferInfo =
  size' :: VkDeviceSize
  usage :: VkBufferUsageFlags
  persistent :: bool

text \<open>\<open>BufferInfo::operator==\<close> and \<open>BufferInfo::operator!=\<close>.\<close>

definition BufferInfo_eq :: "BufferInfo \<Rightarrow> BufferInfo \<Rightarrow> bool" where
  "BufferInfo_eq this other =
     (size' this = size' other \<and>
      usage this = usage other \<and>
      BufferInfo.persistent this = BufferInfo.persistent other)"

definition BufferInfo_neq :: "BufferInfo \<Rightarrow> BufferInfo \<Rightarrow> bool" where
  "BufferInfo_neq this other = (\<not> BufferInfo_eq this other)"

subsection \<open>ResourceDimensions (lines 55-86)\<close>

record ResourceDimensions =
  format :: VkFormat
  buffer_info :: BufferInfo
  width :: unsigned
  height :: unsigned
  depth :: unsigned
  layers :: unsigned
  levels :: unsigned
  transient :: bool
  persistent :: bool
  storage :: bool

text \<open>
  \<open>ResourceDimensions::operator==\<close>, conjunct by conjunct in the order of the source.
  The seventh conjunct of the source is \<open>buffer_info == buffer_info\<close>: both operands are
  the member of \<open>*this\<close>.
\<close>

definition ResourceDimensions_eq :: "ResourceDimensions \<Rightarrow> ResourceDimensions \<Rightarrow> bool" where
  "ResourceDimensions_eq this other =
     (format this = format other \<and>
      width this = width other \<and>
      height this = height other \<and>
      depth this = depth other \<and>
      layers this = layers other \<and>
      levels this = levels other \<and>
      BufferInfo_eq (buffer_info this) (buffer_info this) \<and>
      transient this = transient other \<and>
      ResourceDimensions.persistent this = ResourceDimensions.persistent other \<and>
      storage this = storage other)"

definition ResourceDimensions_neq :: "ResourceDimensions \<Rightarrow> ResourceDimensions \<Rightarrow> bool" where
  "ResourceDimensions_neq this other = (\<not> ResourceDimensions_eq this other)"

text \<open>
  Two dimension records for the evaluation of \<open>operator==\<close>: the member initialisers of
  the struct (format 0, no extent, depth, layers and levels 1, the flags false, the
  buffer descriptor of size 0, usage 0, persistent), and the same record with a buffer of
  64 bytes.
\<close>

definition dims_default :: ResourceDimensions where
  "dims_default =
     \<lparr>format = 0,
      buffer_info = \<lparr>size' = 0, usage = 0, BufferInfo.persistent = True\<rparr>,
      width = 0, height = 0, depth = 1, layers = 1, levels = 1,
      transient = False, persistent = False, storage = False\<rparr>"

definition dims_buffer64 :: ResourceDimensions where
  "dims_buffer64 =
     dims_default\<lparr>buffer_info := \<lparr>size' = 64, usage = 0, BufferInfo.persistent = True\<rparr>\<rparr>"

subsection \<open>RenderResource (lines 88-152)\<close>

datatype ResourceType = Buffer | Texture

text \<open>\<open>enum { Unused = ~0u }\<close>, in \<open>RenderResource\<close> and again in \<open>RenderPass\<close>.\<close>

definition Unused :: unsigned where
  "Unused = NOT 0"

record RenderResource =
  resource_type :: ResourceType
  index :: unsigned
  physical_index :: unsigned
  written_in_passes :: "unsigned set"
  read_in_passes :: "unsigned set"

text \<open>
  The constructor: the type and the index come from the arguments, \<open>physical_index\<close>
  from its member initialiser, and the two \<open>std::unordered_set\<close> members start empty.
\<close>

definition RenderResource_new :: "ResourceType \<Rightarrow> unsigned \<Rightarrow> RenderResource" where
  "RenderResource_new type idx =
     \<lparr>resource_type = type, index = idx, physical_index = Unused,
      written_in_passes = {}, read_in_passes = {}\<rparr>"

definition get_type :: "RenderResource \<Rightarrow> ResourceType" where
  "get_type r = resource_type r"

definition written_in_pass :: "RenderResource \<Rightarrow> unsigned \<Rightarrow> RenderResource" where
  "written_in_pass r n = r\<lparr>written_in_passes := insert n (written_in_passes r)\<rparr>"

definition read_in_pass :: "RenderResource \<Rightarrow> unsigned \<Rightarrow> RenderResource" where
  "read_in_pass r n = r\<lparr>read_in_passes := insert n (read_in_passes r)\<rparr>"

definition get_read_passes :: "RenderResource \<Rightarrow> unsigned set" where
  "get_read_passes r = read_in_passes r"

definition get_write_passes :: "RenderResource \<Rightarrow> unsigned set" where
  "get_write_passes r = written_in_passes r"

definition get_index :: "RenderResource \<Rightarrow> unsigned" where
  "get_index r = index r"

definition set_physical_index :: "RenderResource \<Rightarrow> unsigned \<Rightarrow> RenderResource" where
  "set_physical_index r n = r\<lparr>physical_index := n\<rparr>"

definition get_physical_index :: "RenderResource \<Rightarrow> unsigned" where
  "get_physical_index r = physical_index r"

text \<open>
  The mutating members of \<open>RenderResource\<close> as commands, and a run of commands on one
  resource, in order.
\<close>

datatype ResourceCall =
    WrittenInPass unsigned
  | ReadInPass unsigned
  | SetPhysicalIndex unsigned

fun call_resource :: "RenderResource \<Rightarrow> ResourceCall \<Rightarrow> RenderResource" where
  "call_resource r (WrittenInPass n) = written_in_pass r n"
| "call_resource r (ReadInPass n) = read_in_pass r n"
| "call_resource r (SetPhysicalIndex n) = set_physical_index r n"

definition call_resource_all :: "RenderResource \<Rightarrow> ResourceCall list \<Rightarrow> RenderResource" where
  "call_resource_all r cs = foldl call_resource r cs"

fun is_SetPhysicalIndex :: "ResourceCall \<Rightarrow> bool" where
  "is_SetPhysicalIndex (SetPhysicalIndex n) = True"
| "is_SetPhysicalIndex c = False"

subsection \<open>RenderPassImplementation (lines 220-234)\<close>

text \<open>
  The two query operations take a pointer to the value they may fill in, and the memory
  the pointer refers to is passed and returned: a result \<open>(b, mem')\<close> is the returned
  flag and the memory after the call. These are the bodies of the base class; a derived
  implementation overrides them. \<open>build_render_pass\<close> is pure virtual and has no body.
\<close>

type_synonym 'v memory = "addr \<rightharpoonup> 'v"

definition get_clear_color :: "unsigned \<Rightarrow> ptr \<Rightarrow> 'c memory \<Rightarrow> bool \<times> 'c memory" where
  "get_clear_color attachment target mem = (False, mem)"

definition get_clear_depth_stencil :: "ptr \<Rightarrow> 'd memory \<Rightarrow> bool \<times> 'd memory" where
  "get_clear_depth_stencil target mem = (False, mem)"

subsection \<open>RenderPass (lines 263-422)\<close>

text \<open>
  The reference to the owning graph is the graph's address; the edge lists hold pointers
  to resources, and \<open>implementation\<close> is a pointer to the implementation object.
\<close>

record RenderPass =
  graph :: addr
  index :: unsigned
  physical_pass :: unsigned
  stages :: VkPipelineStageFlags
  color_outputs :: "ptr list"
  color_inputs :: "ptr list"
  color_scale_inputs :: "ptr list"
  texture_inputs :: "ptr list"
  storage_texture_inputs :: "ptr list"
  storage_texture_outputs :: "ptr list"
  attachments_inputs :: "ptr list"
  history_inputs :: "ptr list"
  uniform_inputs :: "ptr list"
  storage_outputs :: "ptr list"
  storage_read_inputs :: "ptr list"
  storage_inputs :: "ptr list"
  depth_stencil_input :: ptr
  depth_stencil_output :: ptr
  implementation :: ptr

text \<open>
  The constructor initialises \<open>graph\<close>, \<open>index\<close> and \<open>stages\<close> from its arguments; the
  other members take their member initialisers, and the vectors start empty.
\<close>

definition RenderPass_new :: "addr \<Rightarrow> unsigned \<Rightarrow> VkPipelineStageFlags \<Rightarrow> RenderPass" where
  "RenderPass_new g idx stgs =
     \<lparr>graph = g, index = idx, physical_pass = Unused, stages = stgs,
      color_outputs = [], color_inputs = [], color_scale_inputs = [],
      texture_inputs = [], storage_texture_inputs = [], storage_texture_outputs = [],
      attachments_inputs = [], history_inputs = [], uniform_inputs = [],
      storage_outputs = [], storage_read_inputs = [], storage_inputs = [],
      depth_stencil_input = None, depth_stencil_output = None,
      implementation = None\<rparr>"

definition get_stages :: "RenderPass \<Rightarrow> VkPipelineStageFlags" where
  "get_stages p = stages p"

definition get_graph :: "RenderPass \<Rightarrow> addr" where
  "get_graph p = graph p"

text \<open>\<open>RenderPass::get_index\<close>; \<open>get_index\<close> is the member of \<open>RenderResource\<close>.\<close>

definition RenderPass_get_index :: "RenderPass \<Rightarrow> unsigned" where
  "RenderPass_get_index p = RenderPass.index p"

definition set_implementation :: "RenderPass \<Rightarrow> ptr \<Rightarrow> RenderPass" where
  "set_implementation p impl = p\<lparr>implementation := impl\<rparr>"

definition get_implementation :: "RenderPass \<Rightarrow> fault + addr" where
  "get_implementation p =
     (case implementation p of None \<Rightarrow> Inl AssertionFailed | Some a \<Rightarrow> Inr a)"

text \<open>
  \<open>make_color_input_scaled\<close> is \<open>std::swap(color_scale_inputs[index], color_inputs[index])\<close>.
\<close>

definition make_color_input_scaled :: "RenderPass \<Rightarrow> unsigned \<Rightarrow> fault + RenderPass" where
  "make_color_input_scaled p idx =
     (let i = unat idx in
      if i < length (color_scale_inputs p) \<and> i < length (color_inputs p) then
        Inr (p\<lparr>color_scale_inputs := (color_scale_inputs p)[i := color_inputs p ! i],
               color_inputs := (color_inputs p)[i := color_scale_inputs p ! i]\<rparr>)
      else Inl OutOfBounds)"

definition get_color_outputs :: "RenderPass \<Rightarrow> ptr list" where
  "get_color_outputs p = color_outputs p"

definition get_color_inputs :: "RenderPass \<Rightarrow> ptr list" where
  "get_color_inputs p = color_inputs p"

definition get_color_scale_inputs :: "RenderPass \<Rightarrow> ptr list" where
  "get_color_scale_inputs p = color_scale_inputs p"

definition get_texture_inputs :: "RenderPass \<Rightarrow> ptr list" where
  "get_texture_inputs p = texture_inputs p"

definition get_storage_texture_outputs :: "RenderPass \<Rightarrow> ptr list" where
  "get_storage_texture_outputs p = storage_texture_outputs p"

definition get_storage_texture_inputs :: "RenderPass \<Rightarrow> ptr list" where
  "get_storage_texture_inputs p = storage_texture_inputs p"

definition get_attachment_inputs :: "RenderPass \<Rightarrow> ptr list" where
  "get_attachment_inputs p = attachments_inputs p"

definition get_history_inputs :: "RenderPass \<Rightarrow> ptr list" where
  "get_history_inputs p = history_inputs p"

definition get_uniform_inputs :: "RenderPass \<Rightarrow> ptr list" where
  "get_uniform_inputs p = uniform_inputs p"

definition get_storage_inputs :: "RenderPass \<Rightarrow> ptr list" where
  "get_storage_inputs p = storage_inputs p"

definition get_storage_read_inputs :: "RenderPass \<Rightarrow> ptr list" where
  "get_storage_read_inputs p = storage_read_inputs p"

definition get_storage_outputs :: "RenderPass \<Rightarrow> ptr list" where
  "get_storage_outputs p = storage_outputs p"

definition get_depth_stencil_input :: "RenderPass \<Rightarrow> ptr" where
  "get_depth_stencil_input p = depth_stencil_input p"

definition get_depth_stencil_output :: "RenderPass \<Rightarrow> ptr" where
  "get_depth_stencil_output p = depth_stencil_output p"

definition get_physical_pass_index :: "RenderPass \<Rightarrow> unsigned" where
  "get_physical_pass_index p = physical_pass p"

definition set_physical_pass_index :: "RenderPass \<Rightarrow> unsigned \<Rightarrow> RenderPass" where
  "set_physical_pass_index p n = p\<lparr>physical_pass := n\<rparr>"

text \<open>A pass with two color inputs, for the evaluation of \<open>make_color_input_scaled\<close>.\<close>

definition pass_two_inputs :: RenderPass where
  "pass_two_inputs =
     (RenderPass_new 0 7 1)\<lparr>color_inputs := [Some 10, Some 11],
                             color_scale_inputs := [None, None]\<rparr>"

subsection \<open>RenderGraph (lines 424-570)\<close>

text \<open>
  The members of the graph that the functions modelled here read or write. A
  \<open>Vulkan::ImageHandle\<close> is a counted pointer to an image: \<open>None\<close> when it is empty.
  \<open>Vulkan::Image\<close> is declared in \<open>device.hpp\<close>, outside this header, so the image type
  \<open>'img\<close> and its accessor \<open>get_view\<close> are parameters.
\<close>

record 'img RenderGraph =
  passes :: "RenderPass list"
  resources :: "RenderResource list"
  resource_to_index :: "string \<rightharpoonup> unsigned"
  backbuffer_source :: string
  pass_stack :: "unsigned list"
  physical_history_image_attachments :: "'img option list"

text \<open>
  \<open>get_physical_history_texture_resource\<close> returns a pointer to the view of the history
  image: \<open>Inr None\<close> is the null pointer, \<open>Inr (Some v)\<close> the pointer to the view \<open>v\<close>.
\<close>

definition get_physical_history_texture_resource ::
  "('img \<Rightarrow> 'view) \<Rightarrow> 'img RenderGraph \<Rightarrow> unsigned \<Rightarrow> fault + 'view option" where
  "get_physical_history_texture_resource get_view g idx =
     (let i = unat idx in
      if i < length (physical_history_image_attachments g) then
        (case physical_history_image_attachments g ! i of
           None \<Rightarrow> Inr None
         | Some img \<Rightarrow> Inr (Some (get_view img)))
      else Inl OutOfBounds)"

text \<open>
  A graph of two physical slots, the first without a history image and the second with
  the image \<open>5\<close>; images are numbers here and the view of image \<open>n\<close> is \<open>n + 100\<close>.
\<close>

definition graph_two_slots :: "nat RenderGraph" where
  "graph_two_slots =
     \<lparr>passes = [], resources = [], resource_to_index = Map.empty,
      backbuffer_source = ''back'', pass_stack = [],
      physical_history_image_attachments = [None, Some 5]\<rparr>"

definition view_of :: "nat \<Rightarrow> nat" where
  "view_of n = n + 100"

section \<open>The dependency analyzer of \<open>bake\<close>\<close>

text \<open>
  \<open>RenderGraph::bake\<close>, \<open>filter_passes\<close> and \<open>validate_passes\<close> are declared in the header
  (lines 435, 499 and 500) and defined outside it, so this section follows the design of
  the dependency analyzer in the specification, step by step. In the edge lists of a pass,
  a pointer \<open>Some a\<close> refers to the logical resource \<open>resources g ! a\<close>, and a pass index
  \<open>p\<close> in a write or read set refers to the pass \<open>passes g ! unat p\<close>. The order in which
  a \<open>std::unordered_set\<close> hands out its elements is not fixed by C++, so the enumeration
  \<open>iter\<close> of a set is a parameter of the analyzer.
\<close>

text \<open>
  Modelled from the spec: the failure kinds of \<open>bake\<close> (its body is not in the header).
  These are the six kinds of the error handling design, in its order; \<open>Fault\<close> is
  added for a table index or a resource pointer outside the tables of the graph, which the
  invariants of the data model exclude.
\<close>

datatype bake_error =
    Cycle
  | UnproducedResource
  | TypeMismatch
  | DimensionUnresolvable
  | MergeConstraintViolation
  | MissingImplementation
  | Fault fault

text \<open>
  Modelled from the spec: the inputs of a pass that contribute dependencies in \<open>bake\<close>
  (its body is not in the header): color, texture, attachment, storage-read, uniform,
  storage-read-only and depth inputs, in that order. History inputs refer to the last
  frame and are left out.
\<close>

definition dependency_inputs :: "RenderPass \<Rightarrow> ptr list" where
  "dependency_inputs p =
     color_inputs p @ texture_inputs p @ attachments_inputs p @ storage_inputs p @
     uniform_inputs p @ storage_read_inputs p @ [depth_stencil_input p]"

text \<open>
  Modelled from the spec: the input edges of a pass that read a value of the current
  frame, for the ordering of \<open>bake\<close> (its body is not in the header): every input edge list
  but the history inputs. \<open>input_edges\<close> are all input edge lists, the history inputs
  included.
\<close>

definition frame_inputs :: "RenderPass \<Rightarrow> ptr list" where
  "frame_inputs p = dependency_inputs p @ color_scale_inputs p @ storage_texture_inputs p"

definition input_edges :: "RenderPass \<Rightarrow> ptr list" where
  "input_edges p = frame_inputs p @ history_inputs p"

text \<open>
  Modelled from the spec: the producers of the inputs of a pass, as \<open>bake\<close> pushes them
  (its body is not in the header): the write set of each input resource, edge by edge,
  each set in the order of \<open>iter\<close>; null edges are skipped.
\<close>

fun producers ::
  "(unsigned set \<Rightarrow> unsigned list) \<Rightarrow> 'img RenderGraph \<Rightarrow> ptr list \<Rightarrow> bake_error + unsigned list"
where
  "producers iter g [] = Inr []"
| "producers iter g (None # ps) = producers iter g ps"
| "producers iter g (Some a # ps) =
     (if a < length (resources g) then
        (case producers iter g ps of
           Inl e \<Rightarrow> Inl e
         | Inr qs \<Rightarrow> Inr (iter (get_write_passes (resources g ! a)) @ qs))
      else Inl (Fault OutOfBounds))"

text \<open>
  Modelled from the spec: the expansion of \<open>bake\<close> (its body is not in the header).
  \<open>expand iter g path handled p\<close> expands the pass \<open>p\<close>: \<open>path\<close> holds the passes under
  expansion, and meeting one of them again is a cycle, which fails the bake. \<open>handled\<close> is
  the list of visited passes: a pass joins it when it is first fully expanded, that is
  when all the producers of its inputs have been expanded, and a pass that is pushed again
  joins the list once more, later.
\<close>

function expand ::
    "(unsigned set \<Rightarrow> unsigned list) \<Rightarrow> 'img RenderGraph \<Rightarrow> unsigned list \<Rightarrow> unsigned list \<Rightarrow>
     unsigned \<Rightarrow> bake_error + unsigned list"
  and expand_all ::
    "(unsigned set \<Rightarrow> unsigned list) \<Rightarrow> 'img RenderGraph \<Rightarrow> unsigned list \<Rightarrow> unsigned list \<Rightarrow>
     unsigned list \<Rightarrow> bake_error + unsigned list"
where
  "expand iter g path handled p =
     (if p \<in> set path then Inl Cycle
      else if p \<in> set handled then Inr (handled @ [p])
      else if length (passes g) \<le> unat p then Inl (Fault OutOfBounds)
      else (case producers iter g (dependency_inputs (passes g ! unat p)) of
              Inl e \<Rightarrow> Inl e
            | Inr qs \<Rightarrow>
                (case expand_all iter g (p # path) handled qs of
                   Inl e \<Rightarrow> Inl e
                 | Inr handled' \<Rightarrow> Inr (handled' @ [p]))))"
| "expand_all iter g path handled [] = Inr handled"
| "expand_all iter g path handled (q # qs) =
     (case expand iter g path handled q of
        Inl e \<Rightarrow> Inl e
      | Inr handled' \<Rightarrow> expand_all iter g path handled' qs)"
  by pat_completeness auto
termination
  apply (relation "inv_image (less_than <*lex*> less_than)
    (\<lambda>x. case x of
       Inl (iter, g, path, handled, p) \<Rightarrow> (card (UNIV - set path), 0)
     | Inr (iter, g, path, handled, qs) \<Rightarrow> (card (UNIV - set path), Suc (length qs)))")
  subgoal by (simp add: wf_lex_prod)
  subgoal premises prems for iter g path handled p qs
  proof -
    from prems(1) have "UNIV - set (p # path) \<subset> UNIV - set path" by auto
    then have "card (UNIV - set (p # path)) < card (UNIV - set path)"
      by (intro psubset_card_mono) simp_all
    then show ?thesis by simp
  qed
  subgoal by simp
  subgoal by simp
  done

text \<open>
  Modelled from the spec: what the order of \<open>bake\<close> has to respect (its body is not in the
  header). \<open>writes_resource g A a\<close>: the pass \<open>A\<close> is in the write set of the resource \<open>a\<close>.
  \<open>reads_in_frame g B a\<close>: the pass \<open>B\<close> reads the value that the resource \<open>a\<close> has in the
  current frame: it has an input edge to \<open>a\<close> that is not a history input, or it is in the
  read set of \<open>a\<close> and no history input of \<open>B\<close> accounts for that. A history input reads the
  value of the last frame and orders nothing. \<open>must_precede g A B\<close>: \<open>A\<close> writes a resource
  that \<open>B\<close> reads in the frame.
\<close>

definition writes_resource :: "'img RenderGraph \<Rightarrow> unsigned \<Rightarrow> addr \<Rightarrow> bool" where
  "writes_resource g A a =
     (a < length (resources g) \<and> A \<in> get_write_passes (resources g ! a))"

definition reads_in_frame :: "'img RenderGraph \<Rightarrow> unsigned \<Rightarrow> addr \<Rightarrow> bool" where
  "reads_in_frame g B a =
     (a < length (resources g) \<and> unat B < length (passes g) \<and>
      (Some a \<in> set (frame_inputs (passes g ! unat B)) \<or>
       B \<in> get_read_passes (resources g ! a) \<and>
       Some a \<notin> set (history_inputs (passes g ! unat B))))"

definition must_precede :: "'img RenderGraph \<Rightarrow> unsigned \<Rightarrow> unsigned \<Rightarrow> bool" where
  "must_precede g A B =
     list_ex (\<lambda>a. writes_resource g A a \<and> reads_in_frame g B a) [0..<length (resources g)]"

text \<open>
  Modelled from the spec: the stable sort of \<open>bake\<close> that turns the list of visited passes
  into a topological order (its body is not in the header). The design names no key; the
  only order it gives is that writers precede readers, so the sort takes, again and again,
  the first pass of the remaining list that no pass of the remaining list has to precede.
  A pass therefore moves only behind passes it waits for, and a list that is in
  topological order already is left as it is. When every remaining pass waits for another,
  there is no topological order and the result is \<open>None\<close>; a pass that reads in the frame a
  resource it writes waits for itself (a read-modify-write is declared through an input
  twin, which is a second resource).
\<close>

fun take_first :: "('a \<Rightarrow> bool) \<Rightarrow> 'a list \<Rightarrow> ('a \<times> 'a list) option" where
  "take_first P [] = None"
| "take_first P (x # xs) =
     (if P x then Some (x, xs)
      else (case take_first P xs of
              None \<Rightarrow> None
            | Some (y, ys) \<Rightarrow> Some (y, x # ys)))"

function sort_passes ::
  "(unsigned \<Rightarrow> unsigned \<Rightarrow> bool) \<Rightarrow> unsigned list \<Rightarrow> unsigned list option"
where
  "sort_passes earlier xs =
     (if xs = [] then Some []
      else (case take_first (\<lambda>x. list_all (\<lambda>y. \<not> earlier y x) xs) xs of
              None \<Rightarrow> None
            | Some (x, rest) \<Rightarrow>
                (case sort_passes earlier rest of
                   None \<Rightarrow> None
                 | Some ys \<Rightarrow> Some (x # ys))))"
  by pat_completeness auto
termination
proof (relation "measure (\<lambda>(earlier, xs). length xs)")
  have shorter: "length ys < length xs" if "take_first P xs = Some (y, ys)"
    for P :: "unsigned \<Rightarrow> bool" and xs y ys
    using that
    by (induction xs arbitrary: y ys) (auto split: if_splits option.splits)
  show "wf (measure (\<lambda>(earlier :: unsigned \<Rightarrow> unsigned \<Rightarrow> bool, xs :: unsigned list). length xs))"
    by simp
  show "((earlier, rest), (earlier, xs)) \<in> measure (\<lambda>(earlier, xs). length xs)"
    if "take_first (\<lambda>x. list_all (\<lambda>y. \<not> earlier y x) xs) xs = Some xa" and "(x, rest) = xa"
    for earlier :: "unsigned \<Rightarrow> unsigned \<Rightarrow> bool" and xs xa x rest
    using that shorter [of "\<lambda>x. list_all (\<lambda>y. \<not> earlier y x) xs" xs x rest] by simp
qed

declare sort_passes.simps [simp del]

text \<open>
  \<open>topological earlier xs\<close>: no pass of \<open>xs\<close> stands at or behind a pass that it has to
  precede.
\<close>

fun topological :: "(unsigned \<Rightarrow> unsigned \<Rightarrow> bool) \<Rightarrow> unsigned list \<Rightarrow> bool" where
  "topological earlier [] = True"
| "topological earlier (x # xs) =
     (list_all (\<lambda>y. \<not> earlier y x) (x # xs) \<and> topological earlier xs)"

text \<open>
  Modelled from the spec: \<open>RenderGraph::filter_passes\<close> (declared at line 499, its body is
  not in the header): duplicates collapse, and the last occurrence of a pass stays.
\<close>

fun filter_passes :: "unsigned list \<Rightarrow> unsigned list" where
  "filter_passes [] = []"
| "filter_passes (x # xs) = (if x \<in> set xs then filter_passes xs else x # filter_passes xs)"

text \<open>
  \<open>precedes order a b\<close>: \<open>a\<close> stands at a position of \<open>order\<close> before a position of \<open>b\<close>.
\<close>

fun precedes :: "unsigned list \<Rightarrow> unsigned \<Rightarrow> unsigned \<Rightarrow> bool" where
  "precedes [] a b = False"
| "precedes (x # xs) a b = ((x = a \<and> b \<in> set xs) \<or> precedes xs a b)"

text \<open>
  Modelled from the spec: steps 1 to 4 of the dependency analyzer of \<open>bake\<close> (its body is
  not in the header). The work stack is seeded with the producers of the backbuffer source
  and expanded; the list of visited passes is sorted and then filtered. A backbuffer
  source that names no resource is an unproduced resource, and a list without a
  topological order is a cycle.
\<close>

definition dependency_order ::
  "(unsigned set \<Rightarrow> unsigned list) \<Rightarrow> 'img RenderGraph \<Rightarrow> bake_error + unsigned list"
where
  "dependency_order iter g =
     (case resource_to_index g (backbuffer_source g) of
        None \<Rightarrow> Inl UnproducedResource
      | Some b \<Rightarrow>
          if length (resources g) \<le> unat b then Inl (Fault OutOfBounds)
          else
            (case expand_all iter g [] [] (iter (get_write_passes (resources g ! unat b))) of
               Inl e \<Rightarrow> Inl e
             | Inr visited \<Rightarrow>
                 (case sort_passes (must_precede g) visited of
                    None \<Rightarrow> Inl Cycle
                  | Some ys \<Rightarrow> Inr (filter_passes ys))))"

text \<open>
  Modelled from the spec: the resource that the framework produces, in the validation of
  \<open>bake\<close> (\<open>validate_passes\<close> is declared at line 500, its body is not in the header):
  the resource named by the backbuffer source.
\<close>

definition is_backbuffer :: "'img RenderGraph \<Rightarrow> addr \<Rightarrow> bool" where
  "is_backbuffer g a =
     (case resource_to_index g (backbuffer_source g) of
        None \<Rightarrow> False
      | Some b \<Rightarrow> unat b = a)"

text \<open>
  Modelled from the spec: the first check of the validation of \<open>bake\<close>
  (\<open>validate_passes\<close> is declared at line 500, its body is not in the header): a
  resource referenced by an input edge of a pass of the order has at least one writer, the
  backbuffer source excepted.
\<close>

definition produced :: "'img RenderGraph \<Rightarrow> ptr \<Rightarrow> bool" where
  "produced g e =
     (case e of
        None \<Rightarrow> True
      | Some a \<Rightarrow>
          a < length (resources g) \<and>
          (get_write_passes (resources g ! a) \<noteq> {} \<or> is_backbuffer g a))"

definition validate_writers :: "'img RenderGraph \<Rightarrow> unsigned list \<Rightarrow> bool" where
  "validate_writers g order =
     list_all (\<lambda>p. unat p < length (passes g) \<and>
                    list_all (produced g) (input_edges (passes g ! unat p))) order"

text \<open>
  Modelled from the spec: the second check of the validation of \<open>bake\<close>
  (\<open>validate_passes\<close> is declared at line 500, its body is not in the header): among the
  passes of the order, every writer of a resource precedes every pass that reads it in the
  frame.
\<close>

definition validate_order :: "'img RenderGraph \<Rightarrow> unsigned list \<Rightarrow> bool" where
  "validate_order g order =
     list_all (\<lambda>A. list_all (\<lambda>B. \<not> must_precede g A B \<or> precedes order A B) order) order"

text \<open>
  Modelled from the spec: \<open>RenderGraph::validate_passes\<close> (declared at line 500, its body
  is not in the header), step 5 of the dependency analyzer. A resource without a writer is
  an unproduced resource. The design gives no failure kind of its own to a reader that
  does not come after a writer; the order that steps 1 to 4 produce always passes that
  check, so the kind written here is never returned.
\<close>

definition validate_passes :: "'img RenderGraph \<Rightarrow> unsigned list \<Rightarrow> bake_error option" where
  "validate_passes g order =
     (if \<not> validate_writers g order then Some UnproducedResource
      else if \<not> validate_order g order then Some Cycle
      else None)"

text \<open>
  Modelled from the spec: the check of \<open>bake\<close> for a missing implementation (its body is
  not in the header): every pass of the plan has an implementation.
\<close>

definition validate_implementations :: "'img RenderGraph \<Rightarrow> unsigned list \<Rightarrow> bool" where
  "validate_implementations g order =
     list_all (\<lambda>p. unat p < length (passes g) \<and> implementation (passes g ! unat p) \<noteq> None)
       order"

text \<open>
  Modelled from the spec: the dependency analyzer of \<open>RenderGraph::bake\<close> (declared at
  line 435, its body is not in the header): the order of steps 1 to 4 is validated and
  becomes \<open>pass_stack\<close>. A bake that fails leaves no plan. The later stages of \<open>bake\<close>
  (physical resources, physical passes, barriers) do not change the order and are not
  modelled. \<open>baked_order\<close> is the order of the plan, or the failure.
\<close>

definition bake ::
  "(unsigned set \<Rightarrow> unsigned list) \<Rightarrow> 'img RenderGraph \<Rightarrow> bake_error + 'img RenderGraph"
where
  "bake iter g =
     (case dependency_order iter g of
        Inl e \<Rightarrow> Inl e
      | Inr order \<Rightarrow>
          (case validate_passes g order of
             Some e \<Rightarrow> Inl e
           | None \<Rightarrow>
               if \<not> validate_implementations g order then Inl MissingImplementation
               else Inr (g\<lparr>pass_stack := order\<rparr>)))"

definition baked_order ::
  "(unsigned set \<Rightarrow> unsigned list) \<Rightarrow> 'img RenderGraph \<Rightarrow> bake_error + unsigned list"
where
  "baked_order iter g = (case bake iter g of Inl e \<Rightarrow> Inl e | Inr g' \<Rightarrow> Inr (pass_stack g'))"

text \<open>
  Two notions for the proofs. A set of passes is closed under producers when each of its
  passes is a pass of the graph and the producers of its dependency inputs are in the set.
  \<open>dependency_edges\<close> relates a pass to each producer of its dependency inputs.
\<close>

definition closed_under_producers ::
  "(unsigned set \<Rightarrow> unsigned list) \<Rightarrow> 'img RenderGraph \<Rightarrow> unsigned set \<Rightarrow> bool"
where
  "closed_under_producers iter g S =
     (\<forall>p \<in> S. unat p < length (passes g) \<and>
        (\<exists>qs. producers iter g (dependency_inputs (passes g ! unat p)) = Inr qs \<and> set qs \<subseteq> S))"

definition dependency_edges ::
  "(unsigned set \<Rightarrow> unsigned list) \<Rightarrow> 'img RenderGraph \<Rightarrow> (unsigned \<times> unsigned) set"
where
  "dependency_edges iter g =
     {(p, q). \<exists>qs. producers iter g (dependency_inputs (passes g ! unat p)) = Inr qs \<and> q \<in> set qs}"

text \<open>
  Graphs for the evaluation of \<open>bake\<close>; \<open>resource_rw i ws rs\<close> is a texture resource with
  the write set \<open>ws\<close> and the read set \<open>rs\<close>.
  \<^item> \<open>graph_deferred\<close>: pass 0 writes the color \<open>c0\<close> and the depth \<open>d\<close>; pass 1 reads \<open>c0\<close> as
    an attachment input and \<open>d\<close> as depth input and writes the backbuffer source.
  \<^item> \<open>graph_diamond\<close>: pass 2 writes \<open>d\<close>; pass 1 samples \<open>d\<close> and writes \<open>b\<close>; pass 0 samples
    \<open>b\<close> and \<open>d\<close> and writes the backbuffer source.
  \<^item> \<open>graph_storage\<close>: pass 1 writes the storage image \<open>s\<close>; pass 0 reads \<open>s\<close> as a storage
    texture input and pass 2 samples it; both write the backbuffer source.
  \<^item> \<open>graph_taa\<close>: the only pass writes \<open>taa_out\<close>, the backbuffer source, and reads it as a
    history input; the read is recorded in the read set.
  \<^item> \<open>graph_history\<close>: pass 0 samples \<open>s\<close> and writes the backbuffer source; pass 1 reads the
    backbuffer source as a history input and writes \<open>s\<close>.
  \<^item> \<open>graph_cycle\<close>: pass 0 reads \<open>x\<close> and writes \<open>y\<close>; pass 1 reads \<open>y\<close> and writes the
    backbuffer source \<open>x\<close>.
\<close>

definition resource_rw :: "unsigned \<Rightarrow> unsigned set \<Rightarrow> unsigned set \<Rightarrow> RenderResource" where
  "resource_rw i ws rs =
     (RenderResource_new Texture i)\<lparr>written_in_passes := ws, read_in_passes := rs\<rparr>"

definition graph_of ::
  "RenderPass list \<Rightarrow> RenderResource list \<Rightarrow> (string \<rightharpoonup> unsigned) \<Rightarrow> string \<Rightarrow> nat RenderGraph"
where
  "graph_of ps rs names back =
     \<lparr>passes = ps, resources = rs, resource_to_index = names, backbuffer_source = back,
      pass_stack = [], physical_history_image_attachments = []\<rparr>"

definition graph_deferred :: "nat RenderGraph" where
  "graph_deferred =
     graph_of
       [(RenderPass_new 0 0 1)\<lparr>color_outputs := [Some 0], depth_stencil_output := Some 1,
                                implementation := Some 100\<rparr>,
        (RenderPass_new 0 1 1)\<lparr>color_outputs := [Some 2], attachments_inputs := [Some 0],
                                depth_stencil_input := Some 1, implementation := Some 101\<rparr>]
       [resource_rw 0 {0} {1}, resource_rw 1 {0} {1}, resource_rw 2 {1} {}]
       [''c0'' \<mapsto> 0, ''d'' \<mapsto> 1, ''back'' \<mapsto> 2] ''back''"


definition graph_storage :: "nat RenderGraph" where
  "graph_storage =
     graph_of
       [(RenderPass_new 0 0 2)\<lparr>storage_texture_outputs := [Some 0],
                                storage_texture_inputs := [Some 1],
                                implementation := Some 100\<rparr>,
        (RenderPass_new 0 1 2)\<lparr>storage_texture_outputs := [Some 1],
                                implementation := Some 101\<rparr>,
        (RenderPass_new 0 2 1)\<lparr>color_outputs := [Some 0], texture_inputs := [Some 1],
                                implementation := Some 102\<rparr>]
       [resource_rw 0 {0, 2} {}, resource_rw 1 {1} {0, 2}]
       [''back'' \<mapsto> 0, ''s'' \<mapsto> 1] ''back''"

definition graph_taa :: "nat RenderGraph" where
  "graph_taa =
     graph_of
       [(RenderPass_new 0 0 1)\<lparr>color_outputs := [Some 0], history_inputs := [Some 0],
                                implementation := Some 100\<rparr>]
       [resource_rw 0 {0} {0}]
       [''taa_out'' \<mapsto> 0] ''taa_out''"


definition graph_cycle :: "nat RenderGraph" where
  "graph_cycle =
     graph_of
       [(RenderPass_new 0 0 1)\<lparr>color_outputs := [Some 1], texture_inputs := [Some 0],
                                implementation := Some 100\<rparr>,
        (RenderPass_new 0 1 1)\<lparr>color_outputs := [Some 0], texture_inputs := [Some 1],
                                implementation := Some 101\<rparr>]
       [resource_rw 0 {1} {0}, resource_rw 1 {0} {1}]
       [''x'' \<mapsto> 0, ''y'' \<mapsto> 1] ''x''"

section \<open>Buffer descriptors\<close>

lemma BufferInfo_eq_iff: "BufferInfo_eq a b \<longleftrightarrow> a = b"
  by (cases a; cases b) (auto simp: BufferInfo_eq_def)

text \<open>
  C6. \<open>BufferInfo::operator==\<close> is true exactly when the byte size, the usage bitmask and
  the persistence flag of the two descriptors are all equal, which is when the two
  descriptors are the same value; \<open>operator!=\<close> is its negation.
\<close>

theorem BufferInfo_eq_fields:
  "(BufferInfo_eq a b \<longleftrightarrow>
      (size' a = size' b \<and> usage a = usage b \<and>
       BufferInfo.persistent a = BufferInfo.persistent b)) \<and>
   (BufferInfo_eq a b \<longleftrightarrow> a = b) \<and>
   (BufferInfo_neq a b \<longleftrightarrow> \<not> BufferInfo_eq a b)"
  using BufferInfo_eq_iff [of a b] by (simp add: BufferInfo_eq_def BufferInfo_neq_def)

section \<open>Resource dimensions\<close>

lemma ResourceDimensions_eq_other_fields:
  "ResourceDimensions_eq a b \<longleftrightarrow>
     (format a = format b \<and> width a = width b \<and> height a = height b \<and>
      depth a = depth b \<and> layers a = layers b \<and> levels a = levels b \<and>
      transient a = transient b \<and>
      ResourceDimensions.persistent a = ResourceDimensions.persistent b \<and>
      storage a = storage b)"
  by (simp add: ResourceDimensions_eq_def BufferInfo_eq_iff)

text \<open>
  C1. The claim is that two dimension records whose buffer descriptors differ never
  compare equal. \<open>operator==\<close> compares \<open>buffer_info\<close> of \<open>*this\<close> with itself, so the
  default record and the record of a 64-byte buffer compare equal although their buffer
  descriptors differ under \<open>BufferInfo::operator==\<close>.
\<close>

theorem ResourceDimensions_eq_ignores_buffer_info:
  "ResourceDimensions_eq dims_default dims_buffer64 \<and>
   \<not> ResourceDimensions_neq dims_default dims_buffer64 \<and>
   \<not> BufferInfo_eq (buffer_info dims_default) (buffer_info dims_buffer64) \<and>
   buffer_info dims_default \<noteq> buffer_info dims_buffer64"
  by (simp add: ResourceDimensions_neq_def ResourceDimensions_eq_other_fields
      BufferInfo_eq_iff dims_default_def dims_buffer64_def)

section \<open>Logical resources\<close>

text \<open>
  C5. Recording the same pass index twice on the same edge set of a resource is
  idempotent: a second \<open>written_in_pass n\<close> (or \<open>read_in_pass n\<close>) leaves the resource, and
  so its write set (or read set), as it was after the first call.
\<close>

theorem written_in_pass_idempotent:
  "written_in_pass (written_in_pass r n) n = written_in_pass r n \<and>
   read_in_pass (read_in_pass r n) n = read_in_pass r n \<and>
   get_write_passes (written_in_pass (written_in_pass r n) n) = get_write_passes (written_in_pass r n) \<and>
   get_read_passes (read_in_pass (read_in_pass r n) n) = get_read_passes (read_in_pass r n)"
  by (simp add: written_in_pass_def read_in_pass_def)

text \<open>
  C9. \<open>written_in_pass n\<close> adds \<open>n\<close> to the write set of the resource and leaves the read
  set, the logical index, the type and the physical index unchanged; \<open>read_in_pass n\<close> adds
  \<open>n\<close> to the read set and leaves the write set, the logical index, the type and the
  physical index unchanged.
\<close>

theorem written_in_pass_frame:
  "get_write_passes (written_in_pass r n) = insert n (get_write_passes r) \<and>
   get_read_passes (written_in_pass r n) = get_read_passes r \<and>
   get_index (written_in_pass r n) = get_index r \<and>
   get_type (written_in_pass r n) = get_type r \<and>
   get_physical_index (written_in_pass r n) = get_physical_index r \<and>
   get_read_passes (read_in_pass r n) = insert n (get_read_passes r) \<and>
   get_write_passes (read_in_pass r n) = get_write_passes r \<and>
   get_index (read_in_pass r n) = get_index r \<and>
   get_type (read_in_pass r n) = get_type r \<and>
   get_physical_index (read_in_pass r n) = get_physical_index r"
  by (simp add: written_in_pass_def read_in_pass_def get_write_passes_def get_read_passes_def
      get_index_def get_type_def get_physical_index_def)

lemma call_resource_physical_index:
  "\<not> is_SetPhysicalIndex c \<Longrightarrow> physical_index (call_resource r c) = physical_index r"
  by (cases c) (simp_all add: written_in_pass_def read_in_pass_def)

lemma call_resource_all_physical_index:
  "list_all (\<lambda>c. \<not> is_SetPhysicalIndex c) cs \<Longrightarrow>
   physical_index (call_resource_all r cs) = physical_index r"
  unfolding call_resource_all_def
  by (induction cs arbitrary: r) (simp_all add: call_resource_physical_index)

text \<open>
  C7. A freshly constructed resource has the physical index \<open>Unused\<close>, which is
  \<open>0xFFFFFFFF\<close>, and keeps it through every run of member calls without a
  \<open>set_physical_index\<close>; \<open>set_physical_index n\<close> makes it \<open>n\<close>. \<open>get_index\<close> and \<open>get_type\<close>
  return the index and the type given to the constructor.
\<close>

theorem RenderResource_new_getters:
  "get_physical_index (RenderResource_new t i) = Unused \<and>
   Unused = 0xFFFFFFFF \<and>
   get_index (RenderResource_new t i) = i \<and>
   get_type (RenderResource_new t i) = t \<and>
   (list_all (\<lambda>c. \<not> is_SetPhysicalIndex c) cs \<longrightarrow>
      get_physical_index (call_resource_all (RenderResource_new t i) cs) = Unused) \<and>
   get_physical_index (set_physical_index (RenderResource_new t i) n) = n"
  by (simp add: call_resource_all_physical_index get_physical_index_def get_index_def
      get_type_def set_physical_index_def)
    (simp add: RenderResource_new_def Unused_def)

theorem RenderResource_new_getters_witness:
  "list_all (\<lambda>c. \<not> is_SetPhysicalIndex c) [WrittenInPass 1, ReadInPass 2, WrittenInPass 1] \<and>
   get_physical_index
     (call_resource_all (RenderResource_new Texture 3)
        [WrittenInPass 1, ReadInPass 2, WrittenInPass 1]) = 0xFFFFFFFF \<and>
   get_write_passes
     (call_resource_all (RenderResource_new Texture 3)
        [WrittenInPass 1, ReadInPass 2, WrittenInPass 1]) = {1}"
  using RenderResource_new_getters [of Texture 3 "[WrittenInPass 1, ReadInPass 2, WrittenInPass 1]"]
  by (simp add: call_resource_all_def written_in_pass_def read_in_pass_def get_write_passes_def RenderResource_new_def)

section \<open>Pass implementations\<close>

text \<open>
  C8. The query operations of the base \<open>RenderPassImplementation\<close> return false for every
  attachment index and every target pointer, null or not, and leave the memory behind the
  pointer as it was.
\<close>

theorem default_clear_queries:
  "get_clear_color attachment target mem = (False, mem) \<and>
   get_clear_depth_stencil target' mem' = (False, mem')"
  by (simp add: get_clear_color_def get_clear_depth_stencil_def)

section \<open>Logical passes\<close>

text \<open>
  C10. A freshly constructed pass has the physical pass index \<open>Unused\<close> (\<open>0xFFFFFFFF\<close>),
  every typed edge list empty, null depth/stencil input and output, and no implementation
  (so \<open>get_implementation\<close> fails its assertion); \<open>get_stages\<close>, \<open>get_index\<close> and
  \<open>get_graph\<close> return the constructor's arguments.
\<close>

theorem RenderPass_new_getters:
  "get_physical_pass_index (RenderPass_new g i s) = Unused \<and>
   Unused = 0xFFFFFFFF \<and>
   get_color_outputs (RenderPass_new g i s) = [] \<and>
   get_color_inputs (RenderPass_new g i s) = [] \<and>
   get_color_scale_inputs (RenderPass_new g i s) = [] \<and>
   get_texture_inputs (RenderPass_new g i s) = [] \<and>
   get_storage_texture_outputs (RenderPass_new g i s) = [] \<and>
   get_storage_texture_inputs (RenderPass_new g i s) = [] \<and>
   get_attachment_inputs (RenderPass_new g i s) = [] \<and>
   get_history_inputs (RenderPass_new g i s) = [] \<and>
   get_uniform_inputs (RenderPass_new g i s) = [] \<and>
   get_storage_inputs (RenderPass_new g i s) = [] \<and>
   get_storage_read_inputs (RenderPass_new g i s) = [] \<and>
   get_storage_outputs (RenderPass_new g i s) = [] \<and>
   get_depth_stencil_input (RenderPass_new g i s) = None \<and>
   get_depth_stencil_output (RenderPass_new g i s) = None \<and>
   implementation (RenderPass_new g i s) = None \<and>
   get_implementation (RenderPass_new g i s) = Inl AssertionFailed \<and>
   get_stages (RenderPass_new g i s) = s \<and>
   RenderPass_get_index (RenderPass_new g i s) = i \<and>
   get_graph (RenderPass_new g i s) = g"
  by (simp add: RenderPass_new_def Unused_def get_physical_pass_index_def
      get_color_outputs_def get_color_inputs_def get_color_scale_inputs_def
      get_texture_inputs_def get_storage_texture_outputs_def get_storage_texture_inputs_def
      get_attachment_inputs_def get_history_inputs_def get_uniform_inputs_def
      get_storage_inputs_def get_storage_read_inputs_def get_storage_outputs_def
      get_depth_stencil_input_def get_depth_stencil_output_def get_implementation_def
      get_stages_def RenderPass_get_index_def get_graph_def)

text \<open>
  C3. For an index valid in both the color-input and the color-scale-input list,
  \<open>make_color_input_scaled\<close> returns without a fault and exchanges the entries at that
  slot: the color-scale input becomes the former color input and the color input the
  former color-scale input; both lists keep their length and every entry at another slot.
\<close>

theorem make_color_input_scaled_swaps:
  assumes "unat i < length (get_color_inputs p)"
    and "unat i < length (get_color_scale_inputs p)"
  shows "\<exists>p'. make_color_input_scaled p i = Inr p' \<and>
     get_color_scale_inputs p' ! unat i = get_color_inputs p ! unat i \<and>
     get_color_inputs p' ! unat i = get_color_scale_inputs p ! unat i \<and>
     length (get_color_inputs p') = length (get_color_inputs p) \<and>
     length (get_color_scale_inputs p') = length (get_color_scale_inputs p) \<and>
     (\<forall>j. j \<noteq> unat i \<longrightarrow>
        get_color_inputs p' ! j = get_color_inputs p ! j \<and>
        get_color_scale_inputs p' ! j = get_color_scale_inputs p ! j)"
  using assms
  by (simp add: make_color_input_scaled_def get_color_inputs_def get_color_scale_inputs_def Let_def)

theorem make_color_input_scaled_swaps_witness:
  "unat (1 :: unsigned) < length (get_color_inputs pass_two_inputs) \<and>
   unat (1 :: unsigned) < length (get_color_scale_inputs pass_two_inputs) \<and>
   (\<exists>p'. make_color_input_scaled pass_two_inputs 1 = Inr p' \<and>
      get_color_inputs p' = [Some 10, None] \<and>
      get_color_scale_inputs p' = [None, Some 11])"
  using make_color_input_scaled_swaps [of 1 pass_two_inputs]
  by (simp add: make_color_input_scaled_def get_color_inputs_def get_color_scale_inputs_def
      pass_two_inputs_def RenderPass_new_def)

section \<open>Physical history images\<close>

text \<open>
  C4. For a physical index inside the vector of history images,
  \<open>get_physical_history_texture_resource\<close> returns the null pointer when the slot holds
  no image, and a pointer to the view of the stored image when it holds one.
\<close>

theorem history_texture_null_or_view:
  assumes "unat i < length (physical_history_image_attachments g)"
  shows "(physical_history_image_attachments g ! unat i = None \<longrightarrow>
            get_physical_history_texture_resource get_view g i = Inr None) \<and>
         (\<forall>img. physical_history_image_attachments g ! unat i = Some img \<longrightarrow>
            get_physical_history_texture_resource get_view g i = Inr (Some (get_view img)))"
  using assms by (simp add: get_physical_history_texture_resource_def)

theorem history_texture_null_or_view_witness:
  "unat (0 :: unsigned) < length (physical_history_image_attachments graph_two_slots) \<and>
   physical_history_image_attachments graph_two_slots ! unat (0 :: unsigned) = None \<and>
   get_physical_history_texture_resource view_of graph_two_slots 0 = Inr None \<and>
   unat (1 :: unsigned) < length (physical_history_image_attachments graph_two_slots) \<and>
   physical_history_image_attachments graph_two_slots ! unat (1 :: unsigned) = Some 5 \<and>
   get_physical_history_texture_resource view_of graph_two_slots 1 = Inr (Some 105)"
  using history_texture_null_or_view [of 0 graph_two_slots view_of]
    history_texture_null_or_view [of 1 graph_two_slots view_of]
  by (simp add: graph_two_slots_def view_of_def)

section \<open>The order of the baked plan\<close>


lemma set_filter_passes: "set (filter_passes xs) = set xs"
  by (induction xs) auto

lemma distinct_filter_passes: "distinct (filter_passes xs)"
  by (induction xs) (auto simp: set_filter_passes)

lemma take_first_Some:
  "take_first P xs = Some (y, ys) \<Longrightarrow> P y \<and> set xs = insert y (set ys)"
  by (induction xs arbitrary: y ys) (auto split: if_splits option.splits)

lemma take_first_None: "take_first P xs = None \<Longrightarrow> x \<in> set xs \<Longrightarrow> \<not> P x"
  by (induction xs) (auto split: if_splits option.splits)

lemma sort_passes_Nil: "sort_passes earlier [] = Some []"
  by (subst sort_passes.simps) simp

lemma sort_passes_sound:
  "sort_passes earlier xs = Some ys \<Longrightarrow> topological earlier ys \<and> set ys = set xs"
proof (induction earlier xs arbitrary: ys rule: sort_passes.induct)
  case (1 earlier xs)
  show ?case
  proof (cases "xs = []")
    case True
    with "1.prems" show ?thesis by (simp add: sort_passes_Nil)
  next
    case False
    with "1.prems" sort_passes.simps [of earlier xs] obtain x rest ys' where
      first: "take_first (\<lambda>x. list_all (\<lambda>y. \<not> earlier y x) xs) xs = Some (x, rest)" and
      rest: "sort_passes earlier rest = Some ys'" and
      ys: "ys = x # ys'"
      by (auto split: option.splits)
    from take_first_Some [OF first]
    have free: "list_all (\<lambda>y. \<not> earlier y x) xs" and xs: "set xs = insert x (set rest)"
      by simp_all
    from "1.IH" [OF False first refl rest]
    have IH: "topological earlier ys'" "set ys' = set rest" by simp_all
    from free xs IH(2) have "list_all (\<lambda>y. \<not> earlier y x) (x # ys')"
      by (auto simp: list_all_iff)
    with IH xs ys show ?thesis by simp
  qed
qed

lemma sort_passes_None:
  "sort_passes earlier xs = None \<Longrightarrow>
   \<exists>S. S \<noteq> {} \<and> S \<subseteq> set xs \<and> (\<forall>b \<in> S. \<exists>a \<in> S. earlier a b)"
proof (induction earlier xs rule: sort_passes.induct)
  case (1 earlier xs)
  note unfold = sort_passes.simps [of earlier xs]
  from "1.prems" unfold have ne: "xs \<noteq> []" by (auto split: if_splits)
  show ?case
  proof (cases "take_first (\<lambda>x. list_all (\<lambda>y. \<not> earlier y x) xs) xs")
    case None
    have "\<exists>a \<in> set xs. earlier a b" if "b \<in> set xs" for b
      using take_first_None [OF None that] by (auto simp: list_all_iff)
    with ne have "set xs \<noteq> {} \<and> set xs \<subseteq> set xs \<and> (\<forall>b \<in> set xs. \<exists>a \<in> set xs. earlier a b)"
      by simp
    then show ?thesis by blast
  next
    case (Some xr)
    obtain x rest where xr: "xr = (x, rest)" by (cases xr)
    with Some "1.prems" ne unfold have rest: "sort_passes earlier rest = None"
      by (auto split: option.splits)
    from "1.IH" [OF ne Some xr [symmetric] rest] obtain S where
      S: "S \<noteq> {}" "S \<subseteq> set rest" "\<forall>b \<in> S. \<exists>a \<in> S. earlier a b"
      by blast
    from take_first_Some [OF Some [unfolded xr]] have "set rest \<subseteq> set xs" by auto
    with S have "S \<noteq> {} \<and> S \<subseteq> set xs \<and> (\<forall>b \<in> S. \<exists>a \<in> S. earlier a b)" by blast
    then show ?thesis by blast
  qed
qed

lemma sort_passes_stable:
  "topological earlier xs \<Longrightarrow> sort_passes earlier xs = Some xs"
proof (induction xs)
  case Nil
  show ?case by (rule sort_passes_Nil)
next
  case (Cons x xs)
  then have "list_all (\<lambda>y. \<not> earlier y x) (x # xs)" "sort_passes earlier xs = Some xs"
    by simp_all
  then show ?case using sort_passes.simps [of earlier "x # xs"] by simp
qed

lemma topological_filter_passes:
  "topological earlier xs \<Longrightarrow> topological earlier (filter_passes xs)"
  by (induction xs) (auto simp: list_all_iff set_filter_passes)

lemma topological_precedes:
  "topological earlier xs \<Longrightarrow> a \<in> set xs \<Longrightarrow> b \<in> set xs \<Longrightarrow> earlier a b \<Longrightarrow>
   precedes xs a b"
proof (induction xs)
  case Nil
  then show ?case by simp
next
  case (Cons x xs)
  from Cons.prems(1) have free: "\<forall>y \<in> set (x # xs). \<not> earlier y x" and
    tail: "topological earlier xs"
    by (simp_all add: list_all_iff)
  from free Cons.prems(2,4) have "b \<noteq> x" by blast
  with Cons.prems(3) have b: "b \<in> set xs" by simp
  show ?case
  proof (cases "a = x")
    case True
    with b show ?thesis by simp
  next
    case False
    with Cons.prems(2) have "a \<in> set xs" by simp
    from Cons.IH [OF tail this b Cons.prems(4)] show ?thesis by simp
  qed
qed



lemma closed_under_producers_insert:
  assumes "closed_under_producers iter g S" and "unat p < length (passes g)"
    and "producers iter g (dependency_inputs (passes g ! unat p)) = Inr qs"
    and "set qs \<subseteq> insert p S"
  shows "closed_under_producers iter g (insert p S)"
  using assms unfolding closed_under_producers_def by (auto; blast)

lemma expand_closed:
  "expand iter g path handled p = Inr h \<Longrightarrow> closed_under_producers iter g (set handled) \<Longrightarrow>
   closed_under_producers iter g (set h) \<and> p \<in> set h \<and> set handled \<subseteq> set h"
  and expand_all_closed:
  "expand_all iter g path handled qs = Inr h \<Longrightarrow> closed_under_producers iter g (set handled) \<Longrightarrow>
   closed_under_producers iter g (set h) \<and> set qs \<subseteq> set h \<and> set handled \<subseteq> set h"
proof (induction iter g path handled p and iter g path handled qs arbitrary: h and h
    rule: expand_expand_all.induct)
  case (1 iter g path handled p)
  show ?case
  proof (cases "p \<in> set handled")
    case True
    with "1.prems" have "set h = set handled" by (auto split: if_splits)
    with "1.prems"(2) True show ?thesis by simp
  next
    case False
    from "1.prems"(1) False obtain qs h' where
      path: "p \<notin> set path" and
      range: "\<not> length (passes g) \<le> unat p" and
      qs: "producers iter g (dependency_inputs (passes g ! unat p)) = Inr qs" and
      h': "expand_all iter g (p # path) handled qs = Inr h'" and
      h: "h = h' @ [p]"
      by (auto split: if_splits sum.splits)
    from "1.IH" [OF path False range qs h' "1.prems"(2)]
    have inv: "closed_under_producers iter g (set h')" "set qs \<subseteq> set h'" "set handled \<subseteq> set h'"
      by simp_all
    from inv(1) range qs inv(2) have "closed_under_producers iter g (insert p (set h'))"
      by (intro closed_under_producers_insert [of _ _ _ _ qs]) auto
    with inv h show ?thesis by auto
  qed
next
  case (2 iter g path handled)
  then show ?case by simp
next
  case (3 iter g path handled q qs)
  from "3.prems"(1) obtain h1 where
    h1: "expand iter g path handled q = Inr h1" and
    h: "expand_all iter g path h1 qs = Inr h"
    by (auto split: sum.splits)
  from "3.IH"(1) [OF h1 "3.prems"(2)]
  have inv1: "closed_under_producers iter g (set h1)" "q \<in> set h1" "set handled \<subseteq> set h1"
    by simp_all
  from "3.IH"(2) [OF h1 h inv1(1)]
  have "closed_under_producers iter g (set h)" "set qs \<subseteq> set h" "set h1 \<subseteq> set h"
    by simp_all
  with inv1 show ?case by auto
qed


lemma validate_order_iff:
  "validate_order g order \<longleftrightarrow>
     (\<forall>A \<in> set order. \<forall>B \<in> set order. must_precede g A B \<longrightarrow> precedes order A B)"
  unfolding validate_order_def list_all_iff by blast

lemma topological_validate_order:
  "topological (must_precede g) order \<Longrightarrow> validate_order g order"
  unfolding validate_order_iff by (blast intro: topological_precedes)

lemma dependency_order_Inr:
  assumes "dependency_order iter g = Inr order"
  shows "\<exists>b visited ys. resource_to_index g (backbuffer_source g) = Some b \<and>
     unat b < length (resources g) \<and>
     expand_all iter g [] [] (iter (get_write_passes (resources g ! unat b))) = Inr visited \<and>
     sort_passes (must_precede g) visited = Some ys \<and>
     order = filter_passes ys"
  using assms unfolding dependency_order_def
  by (auto split: option.splits if_splits sum.splits)

lemma dependency_order_invariant:
  assumes "dependency_order iter g = Inr order"
  shows "distinct order \<and> topological (must_precede g) order \<and>
         closed_under_producers iter g (set order)"
proof -
  from dependency_order_Inr [OF assms] obtain b :: unsigned and visited ys where
    ex: "expand_all iter g [] [] (iter (get_write_passes (resources g ! unat b))) = Inr visited"
    and sorted: "sort_passes (must_precede g) visited = Some ys"
    and order: "order = filter_passes ys"
    by blast
  have "closed_under_producers iter g (set [])" by (simp add: closed_under_producers_def)
  from expand_all_closed [OF ex this] have "closed_under_producers iter g (set visited)" by simp
  moreover from sort_passes_sound [OF sorted]
  have "topological (must_precede g) ys" "set ys = set visited" by simp_all
  ultimately show ?thesis
    using order by (simp add: distinct_filter_passes topological_filter_passes set_filter_passes)
qed


lemma producers_Inl: "producers iter g ps = Inl e \<Longrightarrow> e = Fault OutOfBounds"
  by (induction iter g ps rule: producers.induct) (auto split: if_splits sum.splits)

lemma expand_Cycle:
  "expand iter g path handled p = Inl Cycle \<Longrightarrow>
   \<forall>x \<in> set path. (x, p) \<in> (dependency_edges iter g)\<^sup>+ \<Longrightarrow>
   \<exists>c. (c, c) \<in> (dependency_edges iter g)\<^sup>+"
  and expand_all_Cycle:
  "expand_all iter g path handled qs = Inl Cycle \<Longrightarrow>
   \<forall>q \<in> set qs. \<forall>x \<in> set path. (x, q) \<in> (dependency_edges iter g)\<^sup>+ \<Longrightarrow>
   \<exists>c. (c, c) \<in> (dependency_edges iter g)\<^sup>+"
proof (induction iter g path handled p and iter g path handled qs
    rule: expand_expand_all.induct)
  case (1 iter g path handled p)
  show ?case
  proof (cases "p \<in> set path")
    case True
    with "1.prems"(2) show ?thesis by blast
  next
    case False
    with "1.prems"(1) producers_Inl [of iter g "dependency_inputs (passes g ! unat p)" Cycle]
    obtain qs where
      handled: "p \<notin> set handled" and
      range: "\<not> length (passes g) \<le> unat p" and
      qs: "producers iter g (dependency_inputs (passes g ! unat p)) = Inr qs" and
      rec: "expand_all iter g (p # path) handled qs = Inl Cycle"
      by (auto split: if_splits sum.splits)
    have "(x, q) \<in> (dependency_edges iter g)\<^sup>+" if "q \<in> set qs" "x \<in> set (p # path)" for q x
    proof -
      from qs that(1) have edge: "(p, q) \<in> dependency_edges iter g"
        by (auto simp: dependency_edges_def)
      show ?thesis
      proof (cases "x = p")
        case True
        with edge show ?thesis by blast
      next
        case False
        with that(2) "1.prems"(2) have "(x, p) \<in> (dependency_edges iter g)\<^sup>+" by simp
        from this edge show ?thesis by (rule trancl_into_trancl)
      qed
    qed
    then have "\<forall>q \<in> set qs. \<forall>x \<in> set (p # path). (x, q) \<in> (dependency_edges iter g)\<^sup>+"
      by blast
    from "1.IH" [OF False handled range qs rec this] show ?thesis .
  qed
next
  case (2 iter g path handled)
  then show ?case by simp
next
  case (3 iter g path handled q qs)
  show ?case
  proof (cases "expand iter g path handled q")
    case (Inl e)
    with "3.prems"(1) have "expand iter g path handled q = Inl Cycle" by simp
    from "3.IH"(1) [OF this] "3.prems"(2) show ?thesis by simp
  next
    case (Inr h1)
    with "3.prems"(1) have "expand_all iter g path h1 qs = Inl Cycle" by simp
    from "3.IH"(2) [OF Inr this] "3.prems"(2) show ?thesis by simp
  qed
qed

lemma waiting_set_cycle:
  assumes "S \<noteq> {}" and "\<forall>b \<in> S. \<exists>a \<in> S. R a b"
  shows "\<exists>c :: unsigned. (c, c) \<in> {(a, b). R a b}\<^sup>+"
proof (rule ccontr)
  assume no: "\<nexists>c. (c, c) \<in> {(a, b). R a b}\<^sup>+"
  then have "acyclic {(a, b). R a b}" by (simp add: acyclic_def)
  then have "wf {(a, b). R a b}" by (intro finite_acyclic_wf) simp_all
  with assms(1) obtain z where "z \<in> S" "\<And>y. (y, z) \<in> {(a, b). R a b} \<Longrightarrow> y \<notin> S"
    by (metis ex_in_conv wfE_min)
  with assms(2) show False by blast
qed

lemma bake_Cycle:
  assumes "bake iter g = Inl Cycle"
  shows "(\<exists>c. (c, c) \<in> (dependency_edges iter g)\<^sup>+) \<or>
         (\<exists>c. (c, c) \<in> {(A, B). must_precede g A B}\<^sup>+)"
proof (cases "dependency_order iter g")
  case (Inr order)
  from dependency_order_invariant [OF Inr] have "validate_order g order"
    by (simp add: topological_validate_order)
  with assms Inr show ?thesis
    by (auto simp: bake_def validate_passes_def split: if_splits)
next
  case (Inl e)
  with assms have cyc: "dependency_order iter g = Inl Cycle" by (simp add: bake_def)
  then obtain b :: unsigned where
    "expand_all iter g [] [] (iter (get_write_passes (resources g ! unat b))) = Inl Cycle \<or>
     (\<exists>visited. sort_passes (must_precede g) visited = None)"
    unfolding dependency_order_def by (auto split: option.splits if_splits sum.splits)
  then show ?thesis
  proof
    assume "expand_all iter g [] [] (iter (get_write_passes (resources g ! unat b))) = Inl Cycle"
    from expand_all_Cycle [OF this] show ?thesis by simp
  next
    assume "\<exists>visited. sort_passes (must_precede g) visited = None"
    then obtain visited where "sort_passes (must_precede g) visited = None" by blast
    from sort_passes_None [OF this] obtain S where
      "S \<noteq> {}" "\<forall>b \<in> S. \<exists>a \<in> S. must_precede g a b"
      by blast
    from waiting_set_cycle [OF this] show ?thesis by blast
  qed
qed


lemma bake_graph_deferred: "baked_order sorted_list_of_set graph_deferred = Inr [0, 1]"
  by code_simp


lemma bake_graph_storage:
  "baked_order sorted_list_of_set graph_storage = Inr [1, 0, 2] \<and>
   baked_order (\<lambda>S. rev (sorted_list_of_set S)) graph_storage = Inr [1, 2, 0]"
  by code_simp

lemma bake_graph_taa: "baked_order sorted_list_of_set graph_taa = Inr [0]"
  by code_simp

lemma bake_graph_cycle: "baked_order sorted_list_of_set graph_cycle = Inl Cycle"
  by code_simp





end
